theory Spec2Isabelle
  imports Complex_Main "HOL-Library.AList"
begin

section \<open>Python values and exceptions\<close>

text \<open>
  The script \<^verbatim>\<open>import_blueprints.py\<close> works on parsed JSON documents. A parsed
  document is a Python value built from \<^verbatim>\<open>None\<close>, booleans, numbers, strings, lists
  and dictionaries with string keys. A dictionary keeps its keys in insertion order,
  so it is an association list. Strings are ASCII text.
\<close>

datatype json =
    JNull
  | JBool bool
  | JNum real
  | JStr string
  | JArr "json list"
  | JObj "(string \<times> json) list"

text \<open>
  Every exception the script can raise is a value. \<^verbatim>\<open>sys.exit()\<close> raises
  \<^verbatim>\<open>SystemExit\<close>, which nothing in the script catches.
\<close>

datatype pyerr =
    KeyError
  | TypeError
  | IndexError
  | AttributeError
  | JSONDecodeError
  | UnboundLocalError
  | Exception string
  | SystemExit

type_synonym 'a result = "pyerr + 'a"

definition and_then :: "'a result \<Rightarrow> ('a \<Rightarrow> 'b result) \<Rightarrow> 'b result" where
  "and_then m f = (case m of Inl e \<Rightarrow> Inl e | Inr x \<Rightarrow> f x)"

text \<open>
  The text of a file, and the text \<^verbatim>\<open>json.dumps\<close> builds, is represented by what
  \<^verbatim>\<open>json.loads\<close> makes of it: \<open>None\<close> for text that is not JSON, and the parsed
  value otherwise. On a value that \<^verbatim>\<open>json.loads\<close> produced, \<^verbatim>\<open>json.dumps\<close>
  followed by \<^verbatim>\<open>json.loads\<close> gives the value back.
\<close>

type_synonym raw_json = "json option"

definition json_loads :: "raw_json \<Rightarrow> json result" where
  "json_loads raw = (case raw of None \<Rightarrow> Inl JSONDecodeError | Some j \<Rightarrow> Inr j)"

definition json_dumps :: "json \<Rightarrow> raw_json" where
  "json_dumps j = Some j"

subsection \<open>Subscripts, membership, iteration\<close>

text \<open>\<^verbatim>\<open>x[k]\<close> for a string key \<open>k\<close>.\<close>

fun getitem :: "json \<Rightarrow> string \<Rightarrow> json result" where
  "getitem (JObj kvs) k = (case map_of kvs k of None \<Rightarrow> Inl KeyError | Some v \<Rightarrow> Inr v)"
| "getitem _ k = Inl TypeError"

text \<open>\<^verbatim>\<open>x[0]\<close>. The keys of a parsed dictionary are strings, so \<open>0\<close> is never one.\<close>

fun getitem0 :: "json \<Rightarrow> json result" where
  "getitem0 (JArr xs) = (case xs of [] \<Rightarrow> Inl IndexError | x # _ \<Rightarrow> Inr x)"
| "getitem0 (JStr s) = (case s of [] \<Rightarrow> Inl IndexError | c # _ \<Rightarrow> Inr (JStr [c]))"
| "getitem0 (JObj kvs) = Inl KeyError"
| "getitem0 _ = Inl TypeError"

text \<open>\<^verbatim>\<open>x[k] = v\<close> for a string key \<open>k\<close>: an existing key keeps its place, a new one
  goes last.\<close>

fun setitem :: "json \<Rightarrow> string \<Rightarrow> json \<Rightarrow> json result" where
  "setitem (JObj kvs) k v = Inr (JObj (AList.update k v kvs))"
| "setitem _ k v = Inl TypeError"

text \<open>The list \<open>x\<close> with its element \<open>0\<close> replaced: how a change made in place to
  \<^verbatim>\<open>x[0]\<close> shows in \<open>x\<close>.\<close>

fun setitem0 :: "json \<Rightarrow> json \<Rightarrow> json result" where
  "setitem0 (JArr xs) v = (case xs of [] \<Rightarrow> Inl IndexError | _ # rest \<Rightarrow> Inr (JArr (v # rest)))"
| "setitem0 _ v = Inl TypeError"

text \<open>\<^verbatim>\<open>s in t\<close> on two strings.\<close>

fun substring :: "string \<Rightarrow> string \<Rightarrow> bool" where
  "substring s [] = (s = [])"
| "substring s (c # t) = (take (length s) (c # t) = s \<or> substring s t)"

text \<open>\<^verbatim>\<open>s in x\<close> for a string \<open>s\<close>.\<close>

fun py_in :: "string \<Rightarrow> json \<Rightarrow> bool result" where
  "py_in s (JStr t) = Inr (substring s t)"
| "py_in s (JArr xs) = Inr (JStr s \<in> set xs)"
| "py_in s (JObj kvs) = Inr (s \<in> fst ` set kvs)"
| "py_in s _ = Inl TypeError"

text \<open>\<^verbatim>\<open>x.pop(k)\<close> for a string \<open>k\<close>.\<close>

fun py_pop :: "json \<Rightarrow> string \<Rightarrow> json result" where
  "py_pop (JObj kvs) k =
     (case map_of kvs k of None \<Rightarrow> Inl KeyError | Some _ \<Rightarrow> Inr (JObj (AList.delete k kvs)))"
| "py_pop (JArr xs) k = Inl TypeError"
| "py_pop _ k = Inl AttributeError"

text \<open>The items \<^verbatim>\<open>for v in x\<close> visits.\<close>

fun py_iter :: "json \<Rightarrow> json list result" where
  "py_iter (JArr xs) = Inr xs"
| "py_iter (JObj kvs) = Inr (map (\<lambda>kv. JStr (fst kv)) kvs)"
| "py_iter (JStr s) = Inr (map (\<lambda>c. JStr [c]) s)"
| "py_iter _ = Inl TypeError"

definition lower_char :: "char \<Rightarrow> char" where
  "lower_char c =
     (case map_of (zip ''ABCDEFGHIJKLMNOPQRSTUVWXYZ'' ''abcdefghijklmnopqrstuvwxyz'') c of
        None \<Rightarrow> c
      | Some d \<Rightarrow> d)"

text \<open>\<^verbatim>\<open>x.lower()\<close>.\<close>

fun py_lower :: "json \<Rightarrow> string result" where
  "py_lower (JStr s) = Inr (map lower_char s)"
| "py_lower _ = Inl AttributeError"

text \<open>\<^verbatim>\<open>d[k]\<close> on the dictionary of strings \<^verbatim>\<open>dict_variables\<close>.\<close>

definition dict_get :: "(string \<times> string) list \<Rightarrow> string \<Rightarrow> string result" where
  "dict_get d k = (case map_of d k of None \<Rightarrow> Inl KeyError | Some v \<Rightarrow> Inr v)"

section \<open>The per-file transformation\<close>

text \<open>Lines 170 to 172: the project reference is set to an empty dictionary, which then
  gets its two keys.\<close>

definition bind_project :: "json option \<Rightarrow> json \<Rightarrow> json result" where
  "bind_project project_uuid parsed =
     and_then (getitem parsed ''metadata'') (\<lambda>metadata.
     and_then (setitem metadata ''project_reference'' (JObj [])) (\<lambda>metadata.
     and_then (getitem metadata ''project_reference'') (\<lambda>reference.
     and_then (setitem reference ''kind'' (JStr ''project'')) (\<lambda>reference.
     and_then (case project_uuid of None \<Rightarrow> Inl UnboundLocalError | Some u \<Rightarrow> Inr u) (\<lambda>u.
     and_then (setitem reference ''uuid'' u) (\<lambda>reference.
     and_then (setitem metadata ''project_reference'' reference) (\<lambda>metadata.
     setitem parsed ''metadata'' metadata)))))))"

text \<open>Lines 178 to 181: the body of the loop over the variable list.\<close>

definition inject_entry :: "(string \<times> string) list \<Rightarrow> json \<Rightarrow> json result" where
  "inject_entry dict_variables var_dict =
     and_then (getitem var_dict ''name'') (\<lambda>name.
     and_then (py_lower name) (\<lambda>variable_name.
     and_then (dict_get dict_variables variable_name) (\<lambda>v.
     if v \<noteq> ''none'' then setitem var_dict ''value'' (JStr v) else Inr var_dict)))"

fun inject_loop :: "(string \<times> string) list \<Rightarrow> json list \<Rightarrow> json list result" where
  "inject_loop dict_variables [] = Inr []"
| "inject_loop dict_variables (var_dict # rest) =
     and_then (inject_entry dict_variables var_dict) (\<lambda>var_dict.
     and_then (inject_loop dict_variables rest) (\<lambda>rest. Inr (var_dict # rest)))"

text \<open>Line 177: the loop. Only the elements of a list can be changed by it; the keys of a
  dictionary and the characters of a string are strings, on which the body raises.\<close>

definition inject_variable_list :: "(string \<times> string) list \<Rightarrow> json \<Rightarrow> json result" where
  "inject_variable_list dict_variables variable_list =
     and_then (py_iter variable_list) (\<lambda>items.
     and_then (inject_loop dict_variables items) (\<lambda>items.
     Inr (case variable_list of JArr _ \<Rightarrow> JArr items | _ \<Rightarrow> variable_list)))"

text \<open>Lines 176 to 181. The loop changes the entries in place, so the objects on the
  path to the variable list are rebuilt around the new list.\<close>

definition inject_variables :: "(string \<times> string) list \<Rightarrow> json \<Rightarrow> json result" where
  "inject_variables dict_variables parsed =
     and_then (getitem parsed ''spec'') (\<lambda>spec.
     and_then (getitem spec ''resources'') (\<lambda>resources.
     and_then (getitem resources ''service_definition_list'') (\<lambda>definitions.
     and_then (getitem0 definitions) (\<lambda>definition0.
     and_then (getitem definition0 ''variable_list'') (\<lambda>variable_list.
     and_then (inject_variable_list dict_variables variable_list) (\<lambda>variable_list.
     and_then (setitem definition0 ''variable_list'' variable_list) (\<lambda>definition0.
     and_then (setitem0 definitions definition0) (\<lambda>definitions.
     and_then (setitem resources ''service_definition_list'' definitions) (\<lambda>resources.
     and_then (setitem spec ''resources'' resources) (\<lambda>spec.
     setitem parsed ''spec'' spec))))))))))"

text \<open>Lines 168 to 184: what is done only when a project was named.\<close>

definition add_project :: "json option \<Rightarrow> (string \<times> string) list \<Rightarrow> raw_json \<Rightarrow> raw_json result" where
  "add_project project_uuid dict_variables raw =
     and_then (json_loads raw) (\<lambda>parsed.
     and_then (bind_project project_uuid parsed) (\<lambda>parsed.
     and_then (getitem parsed ''metadata'') (\<lambda>metadata.
     and_then (getitem metadata ''name'') (\<lambda>name.
     and_then (py_in ''EraServerDeployment'' name) (\<lambda>aware.
     and_then (if aware then inject_variables dict_variables parsed else Inr parsed) (\<lambda>parsed.
     Inr (json_dumps parsed)))))))"

text \<open>Lines 188 to 191, for one key.\<close>

definition pop_if_present :: "string \<Rightarrow> json \<Rightarrow> json result" where
  "pop_if_present k pre_process =
     and_then (py_in k pre_process) (\<lambda>present.
     if present then py_pop pre_process k else Inr pre_process)"

text \<open>Lines 187 to 194.\<close>

definition remove_export_keys :: "raw_json \<Rightarrow> raw_json result" where
  "remove_export_keys raw =
     and_then (json_loads raw) (\<lambda>pre_process.
     and_then (pop_if_present ''status'' pre_process) (\<lambda>pre_process.
     and_then (pop_if_present ''product_version'' pre_process) (\<lambda>pre_process.
     Inr (json_dumps pre_process))))"

text \<open>Lines 168 to 194: from the text read from the file to the text that is uploaded.\<close>

definition transform ::
  "string \<Rightarrow> json option \<Rightarrow> (string \<times> string) list \<Rightarrow> raw_json \<Rightarrow> raw_json result" where
  "transform project project_uuid dict_variables raw =
     and_then (if project \<noteq> ''none'' then add_project project_uuid dict_variables raw
               else Inr raw) (\<lambda>raw.
     remove_export_keys raw)"

section \<open>Command-line options\<close>

text \<open>What \<^verbatim>\<open>argparse\<close> hands over: the positional address, and \<open>None\<close> for every
  flag that was not given.\<close>

record args =
  pc_ip :: string
  arg_username :: "string option"
  arg_password :: "string option"
  arg_directory :: "string option"
  arg_project :: "string option"
  arg_pe_vip :: "string option"
  arg_ctr_uuid :: "string option"
  arg_ctr_name :: "string option"
  arg_clstr_name :: "string option"
  arg_era_id :: "string option"
  arg_network_name :: "string option"
  arg_network_vlan :: "string option"

text \<open>The globals \<^verbatim>\<open>get_options\<close> sets.\<close>

record options =
  cluster_ip :: string
  username :: string
  password :: string
  directory :: string
  project :: string
  dict_variables :: "(string \<times> string) list"

text \<open>A request made through \<^verbatim>\<open>apiclient.ApiClient\<close>.\<close>

record request =
  req_method :: string
  req_ip :: string
  req_path :: string
  req_body :: raw_json
  req_username :: string
  req_password :: string

text \<open>
  What the script reads from outside: the answers typed at the two prompts, the files
  \<^verbatim>\<open>glob.glob\<close> lists for a pattern, the text of each file, the answer of
  \<^verbatim>\<open>get_info\<close> to a request (a parsed body or an exception), and the seconds
  \<^verbatim>\<open>mktime(end_time) - mktime(start_time)\<close> measured for a file.
\<close>

record env =
  typed_username :: string
  typed_password :: string
  glob :: "string \<Rightarrow> string list"
  read_file :: "string \<Rightarrow> raw_json"
  get_info :: "request \<Rightarrow> json result"
  difference :: "string \<Rightarrow> real"

text \<open>What the script does to the outside: the strings printed and the requests sent, in
  order.\<close>

record state =
  stdout :: "string list"
  requests :: "request list"

definition print :: "string \<Rightarrow> state \<Rightarrow> state" where
  "print s st = st\<lparr>stdout := stdout st @ [s]\<rparr>"

definition send :: "request \<Rightarrow> state \<Rightarrow> state" where
  "send r st = st\<lparr>requests := requests st @ [r]\<rparr>"

text \<open>\<^verbatim>\<open>if args.x: v = args.x\<close> with \<^verbatim>\<open>else: v = default\<close>: the test holds for a
  flag that was given with a non-empty value.\<close>

definition or_default :: "string option \<Rightarrow> string \<Rightarrow> string" where
  "or_default arg dflt = (case arg of None \<Rightarrow> dflt | Some s \<Rightarrow> if s \<noteq> [] then s else dflt)"

text \<open>\<^verbatim>\<open>if args.x: dict_variables['x'] = args.x\<close>.\<close>

definition set_if_given ::
  "string \<Rightarrow> string option \<Rightarrow> (string \<times> string) list \<Rightarrow> (string \<times> string) list" where
  "set_if_given k arg d =
     (case arg of None \<Rightarrow> d | Some s \<Rightarrow> if s \<noteq> [] then AList.update k s d else d)"

text \<open>Line 86.\<close>

definition default_variables :: "(string \<times> string) list" where
  "default_variables =
     [(''pe_vip'', ''none''), (''ctr_uuid'', ''none''), (''clstr_name'', ''none''),
      (''ctr_name'', ''none''), (''era_id'', ''none''), (''network_name'', ''none''),
      (''network_vlan'', ''none'')]"

definition get_options :: "env \<Rightarrow> args \<Rightarrow> options" where
  "get_options e a =
     \<lparr>cluster_ip = pc_ip a,
      username = or_default (arg_username a) (typed_username e),
      password = or_default (arg_password a) (typed_password e),
      directory = or_default (arg_directory a) ''.'',
      project = or_default (arg_project a) ''none'',
      dict_variables =
        set_if_given ''network_vlan'' (arg_network_vlan a)
       (set_if_given ''network_name'' (arg_network_name a)
       (set_if_given ''era_id'' (arg_era_id a)
       (set_if_given ''ctr_name'' (arg_ctr_name a)
       (set_if_given ''clstr_name'' (arg_clstr_name a)
       (set_if_given ''ctr_uuid'' (arg_ctr_uuid a)
       (set_if_given ''pe_vip'' (arg_pe_vip a) default_variables))))))\<rparr>"

section \<open>The run\<close>

text \<open>\<^verbatim>\<open>s + x\<close> and \<^verbatim>\<open>x + s\<close> for a string \<open>s\<close>: Python adds a string to a string
  only.\<close>

fun str_plus :: "string \<Rightarrow> json \<Rightarrow> string result" where
  "str_plus s (JStr t) = Inr (s @ t)"
| "str_plus s _ = Inl TypeError"

fun plus_str :: "json \<Rightarrow> string \<Rightarrow> string result" where
  "plus_str (JStr t) s = Inr (t @ s)"
| "plus_str _ s = Inl TypeError"

text \<open>\<^verbatim>\<open>directory.rstrip("/")\<close>.\<close>

definition rstrip_slash :: "string \<Rightarrow> string" where
  "rstrip_slash s = rev (dropWhile (\<lambda>c. c = CHR ''/'') (rev s))"

text \<open>Lines 142 to 145: the scan of the listed projects. A local that was never assigned
  is \<open>None\<close>.\<close>

fun scan_projects :: "string \<Rightarrow> json list \<Rightarrow> bool \<times> json option \<Rightarrow> (bool \<times> json option) result" where
  "scan_projects wanted [] found = Inr found"
| "scan_projects wanted (current_project # rest) (project_found, project_uuid) =
     and_then (getitem current_project ''status'') (\<lambda>status.
     and_then (getitem status ''name'') (\<lambda>name.
     if name = JStr wanted then
       and_then (getitem current_project ''metadata'') (\<lambda>metadata.
       and_then (getitem metadata ''uuid'') (\<lambda>uuid.
       scan_projects wanted rest (True, Some uuid)))
     else scan_projects wanted rest (project_found, project_uuid)))"

definition projects_request :: "options \<Rightarrow> request" where
  "projects_request opts =
     \<lparr>req_method = ''post'', req_ip = cluster_ip opts, req_path = ''projects/list'',
      req_body = Some (JObj [(''kind'', JStr ''project'')]),
      req_username = username opts, req_password = password opts\<rparr>"

text \<open>Lines 138 to 145. The result holds the two locals \<^verbatim>\<open>project_found\<close> and
  \<^verbatim>\<open>project_uuid\<close>, each \<open>None\<close> while unassigned.\<close>

definition resolve_project ::
  "env \<Rightarrow> options \<Rightarrow> state \<Rightarrow> (bool option \<times> json option) result \<times> state" where
  "resolve_project e opts st =
     (if project opts \<noteq> ''none'' then
        (let st = send (projects_request opts) st in
         (case and_then (get_info e (projects_request opts)) (\<lambda>results.
               and_then (getitem results ''entities'') (\<lambda>entities.
               and_then (py_iter entities) (\<lambda>entities.
               scan_projects (project opts) entities (False, None)))) of
            Inl err \<Rightarrow> (Inl err, st)
          | Inr (project_found, project_uuid) \<Rightarrow> (Inr (Some project_found, project_uuid), st)))
      else (Inr (None, None), st))"

definition import_request :: "options \<Rightarrow> raw_json \<Rightarrow> request" where
  "import_request opts raw =
     \<lparr>req_method = ''post'', req_ip = cluster_ip opts, req_path = ''blueprints/import_json'',
      req_body = raw, req_username = username opts, req_password = password opts\<rparr>"

text \<open>Lines 224 to 227: the line reported for a file, from the answer to its upload.\<close>

definition outcome_message :: "string \<Rightarrow> json \<Rightarrow> real \<Rightarrow> string result" where
  "outcome_message blueprint json_result seconds =
     (case and_then (getitem json_result ''message_list'') (\<lambda>message_list.
           and_then (getitem0 message_list) (\<lambda>first.
           and_then (getitem first ''message'') (\<lambda>text.
           and_then (str_plus (blueprint @ '' : '') text) (\<lambda>s. Inr (s @ ''.''))))) of
        Inl err \<Rightarrow>
          (if err = KeyError then
             and_then (str_plus (blueprint @ '' : Successfully imported in '') (JNum seconds))
               (\<lambda>s. Inr (s @ '' seconds.''))
           else Inl err)
      | Inr message \<Rightarrow> Inr message)"

text \<open>Lines 161 to 230: the body of the loop over the files.\<close>

definition import_file ::
  "env \<Rightarrow> options \<Rightarrow> json option \<Rightarrow> string \<Rightarrow> state \<Rightarrow> unit result \<times> state" where
  "import_file e opts project_uuid blueprint st =
     (case transform (project opts) project_uuid (dict_variables opts) (read_file e blueprint) of
        Inl err \<Rightarrow> (Inl err, st)
      | Inr raw \<Rightarrow>
          (case and_then (json_loads raw) (\<lambda>doc.
                and_then (getitem doc ''spec'') (\<lambda>spec. getitem spec ''name'')) of
             Inl err \<Rightarrow>
               (if err = JSONDecodeError then
                  (Inl SystemExit,
                   print (blueprint @ '' : Unprocessable JSON file found. Is this definitely a Nutanix Calm blueprint file?'') st)
                else (Inl err, st))
           | Inr blueprint_name \<Rightarrow>
               (let st = send (import_request opts raw) st in
                (case get_info e (import_request opts raw) of
                   Inl err \<Rightarrow>
                     (if err = JSONDecodeError then
                        (Inl SystemExit, print (blueprint @ '': No processable JSON response available.'') st)
                      else (Inl err, st))
                 | Inr json_result \<Rightarrow>
                     (case outcome_message blueprint json_result (difference e blueprint) of
                        Inl err \<Rightarrow> (Inl err, st)
                      | Inr message \<Rightarrow> (Inr (), print message st))))))"

fun import_loop ::
  "env \<Rightarrow> options \<Rightarrow> json option \<Rightarrow> string list \<Rightarrow> state \<Rightarrow> unit result \<times> state" where
  "import_loop e opts project_uuid [] st = (Inr (), st)"
| "import_loop e opts project_uuid (blueprint # rest) st =
     (case import_file e opts project_uuid blueprint st of
        (Inl err, st) \<Rightarrow> (Inl err, st)
      | (Inr _, st) \<Rightarrow> import_loop e opts project_uuid rest st)"

text \<open>Lines 134 to 230: what is done when at least one file was found.\<close>

definition import_all :: "env \<Rightarrow> options \<Rightarrow> string list \<Rightarrow> state \<Rightarrow> unit result \<times> state" where
  "import_all e opts blueprint_list st =
     (case resolve_project e opts st of
        (Inl err, st) \<Rightarrow> (Inl err, st)
      | (Inr (project_found, project_uuid), st) \<Rightarrow>
          (case project_found of
             None \<Rightarrow> (Inl UnboundLocalError, st)
           | Some found \<Rightarrow>
               if found then
                 (let st = print (''\<newline>Project'' @ project opts @ '' exists.'') st in
                  (case plus_str (JNum (of_nat (length blueprint_list))) '' JSON files found. Starting import ...\<newline>'' of
                     Inl err \<Rightarrow> (Inl err, st)
                   | Inr line \<Rightarrow> import_loop e opts project_uuid blueprint_list (print line st)))
               else
                 (Inl SystemExit,
                  print (''\<newline>Project '' @ project opts @ '' was not found.  Please check the name and retry.'') st)))"

definition main :: "env \<Rightarrow> args \<Rightarrow> unit result \<times> state" where
  "main e a =
     (let opts = get_options e a; st = \<lparr>stdout = [], requests = []\<rparr> in
      if cluster_ip opts = [] then (Inl (Exception ''Cluster IP is required.''), st)
      else if username opts = [] then (Inl (Exception ''Username is required.''), st)
      else if password opts = [] then (Inl (Exception ''Password is required.''), st)
      else
        (let dir_path = rstrip_slash (directory opts);
             blueprint_list = glob e (dir_path @ ''/*.json'')
         in if length blueprint_list > 0 then
              (case import_all e opts blueprint_list st of
                 (Inl err, st) \<Rightarrow> (Inl err, st)
               | (Inr _, st) \<Rightarrow> (Inr (), print ''\<newline>Finished!\<newline>'' st))
            else
              (Inr (),
               print ''\<newline>Finished!\<newline>''
                 (print (''\<newline>No JSON files found in'' @ directory opts @ '' ... nothing to import!'') st))))"

section \<open>Example data\<close>

text \<open>The document, the project identifier and the table of the example in the
  specification, and the document it is transformed to.\<close>

definition example_document :: json where
  "example_document =
     JObj [(''metadata'', JObj [(''name'', JStr ''EraServerDeployment-v1'')]),
           (''spec'', JObj [(''name'', JStr ''bp1''),
              (''resources'', JObj [(''service_definition_list'',
                 JArr [JObj [(''variable_list'',
                   JArr [JObj [(''name'', JStr ''PE_VIP''), (''value'', JStr ''old'')]])]])])]),
           (''status'', JObj [])]"

definition example_table :: "(string \<times> string) list" where
  "example_table =
     [(''pe_vip'', ''10.0.0.5''), (''ctr_uuid'', ''none''), (''clstr_name'', ''none''),
      (''ctr_name'', ''none''), (''era_id'', ''none''), (''network_name'', ''none''),
      (''network_vlan'', ''none'')]"

definition example_result :: json where
  "example_result =
     JObj [(''metadata'', JObj [(''name'', JStr ''EraServerDeployment-v1''),
              (''project_reference'', JObj [(''kind'', JStr ''project''), (''uuid'', JStr ''U1'')])]),
           (''spec'', JObj [(''name'', JStr ''bp1''),
              (''resources'', JObj [(''service_definition_list'',
                 JArr [JObj [(''variable_list'',
                   JArr [JObj [(''name'', JStr ''PE_VIP''), (''value'', JStr ''10.0.0.5'')]])]])])])]"

text \<open>An exported document that carries both export-only keys and an older project
  reference with a third key.\<close>

definition exported_metadata :: "(string \<times> json) list" where
  "exported_metadata =
     [(''name'', JStr ''Wordpress''),
      (''project_reference'', JObj [(''kind'', JStr ''project''), (''uuid'', JStr ''U0''),
                                    (''name'', JStr ''default'')])]"

definition exported_items :: "(string \<times> json) list" where
  "exported_items =
     [(''status'', JObj [(''state'', JStr ''ACTIVE'')]),
      (''metadata'', JObj exported_metadata),
      (''product_version'', JStr ''3.0''),
      (''spec'', JObj [(''name'', JStr ''Wordpress'')])]"

definition exported_document :: json where
  "exported_document = JObj exported_items"

definition exported_result :: json where
  "exported_result =
     JObj [(''metadata'', JObj [(''name'', JStr ''Wordpress''),
              (''project_reference'', JObj [(''kind'', JStr ''project''), (''uuid'', JStr ''U1'')])]),
           (''spec'', JObj [(''name'', JStr ''Wordpress'')])]"

text \<open>A run: the address, the credentials and the directory are given, the project
  \<open>p1\<close> is named, and one variable has a value. The directory holds one file, the
  example document. Two of the listed projects are called \<open>p1\<close>.\<close>

definition example_args :: args where
  "example_args =
     \<lparr>pc_ip = ''10.0.0.1'', arg_username = Some ''admin'', arg_password = Some ''secret'',
      arg_directory = Some ''blueprints/'', arg_project = Some ''p1'',
      arg_pe_vip = Some ''10.0.0.5'', arg_ctr_uuid = None, arg_ctr_name = None,
      arg_clstr_name = None, arg_era_id = None, arg_network_name = None,
      arg_network_vlan = None\<rparr>"

definition listed_project :: "string \<Rightarrow> string \<Rightarrow> json" where
  "listed_project n u =
     JObj [(''status'', JObj [(''name'', JStr n), (''state'', JStr ''COMPLETE'')]),
           (''metadata'', JObj [(''kind'', JStr ''project''), (''uuid'', JStr u)])]"

definition example_listing :: json where
  "example_listing =
     JObj [(''entities'',
            JArr [listed_project ''p1'' ''U0'', listed_project ''default'' ''U9'',
                  listed_project ''p1'' ''U1'', listed_project ''p2'' ''U2''])]"

definition example_env :: env where
  "example_env =
     \<lparr>typed_username = [], typed_password = [],
      glob = (\<lambda>pattern. if pattern = ''blueprints/*.json'' then [''blueprints/era.json''] else []),
      read_file = (\<lambda>path. if path = ''blueprints/era.json'' then Some example_document else None),
      get_info = (\<lambda>r. if req_path r = ''projects/list'' then Inr example_listing else Inr (JObj [])),
      difference = (\<lambda>path. 2)\<rparr>"

text \<open>An entry of a variable list whose value is already the string \<open>none\<close>, and one
  whose name is not in the table.\<close>

definition none_entry :: json where
  "none_entry = JObj [(''name'', JStr ''PE_VIP''), (''value'', JStr ''none'')]"

definition unknown_entry :: json where
  "unknown_entry = JObj [(''name'', JStr ''ERA_VERSION''), (''value'', JStr ''2.0'')]"

definition unknown_document :: json where
  "unknown_document =
     JObj [(''metadata'', JObj [(''name'', JStr ''EraServerDeployment'')]),
           (''spec'', JObj [(''name'', JStr ''era''),
              (''resources'', JObj [(''service_definition_list'',
                 JArr [JObj [(''variable_list'', JArr [unknown_entry])]])])])]"

text \<open>The same run on a directory without files, and a run that names a project that is
  not listed.\<close>

definition empty_env :: env where
  "empty_env = example_env\<lparr>glob := (\<lambda>pattern. [])\<rparr>"

definition missing_args :: args where
  "missing_args = example_args\<lparr>arg_project := Some ''missing''\<rparr>"

text \<open>Files that are not blueprints: one that is not JSON, one without \<open>spec\<close>, and the
  others with a \<open>spec\<close> that has no \<open>name\<close>.\<close>

definition broken_env :: env where
  "broken_env =
     example_env\<lparr>read_file :=
       (\<lambda>path. if path = ''blueprints/notes.json'' then None
               else if path = ''blueprints/list.json'' then Some (JObj [(''metadata'', JObj [])])
               else Some (JObj [(''metadata'', JObj []), (''spec'', JObj [])]))\<rparr>"

section \<open>Reading a listed project\<close>

text \<open>\<^verbatim>\<open>current_project["status"]["name"]\<close> and \<^verbatim>\<open>current_project["metadata"]["uuid"]\<close>,
  the two reads of lines 143 and 145.\<close>

definition entity_name :: "json \<Rightarrow> json result" where
  "entity_name current_project =
     and_then (getitem current_project ''status'') (\<lambda>status. getitem status ''name'')"

definition entity_uuid :: "json \<Rightarrow> json result" where
  "entity_uuid current_project =
     and_then (getitem current_project ''metadata'') (\<lambda>metadata. getitem metadata ''uuid'')"

section \<open>Changes below a key\<close>

text \<open>Two notions for the proofs: a change made to the value under a key, and to the
  first element of a list. Lines 176 to 181 are four of the first around one of the
  second (lemma \<open>inject_variables_nested\<close>).\<close>

definition at_key :: "string \<Rightarrow> (json \<Rightarrow> json result) \<Rightarrow> json \<Rightarrow> json result" where
  "at_key k f d = and_then (getitem d k) (\<lambda>x. and_then (f x) (\<lambda>x'. setitem d k x'))"

definition at_first :: "(json \<Rightarrow> json result) \<Rightarrow> json \<Rightarrow> json result" where
  "at_first f d = and_then (getitem0 d) (\<lambda>x. and_then (f x) (\<lambda>x'. setitem0 d x'))"

section \<open>Basic facts\<close>

lemma and_then_Inl [simp]: "and_then (Inl e) f = Inl e"
  by (simp add: and_then_def)

lemma and_then_Inr [simp]: "and_then (Inr x) f = f x"
  by (simp add: and_then_def)

lemma and_then_eq_Inr: "and_then m f = Inr y \<longleftrightarrow> (\<exists>x. m = Inr x \<and> f x = Inr y)"
  by (cases m) simp_all

lemma getitem_eq_Inr: "getitem d k = Inr v \<longleftrightarrow> (\<exists>kvs. d = JObj kvs \<and> map_of kvs k = Some v)"
  by (cases d) (auto split: option.splits)

lemma setitem_eq_Inr:
  "setitem d k v = Inr d' \<longleftrightarrow> (\<exists>kvs. d = JObj kvs \<and> d' = JObj (AList.update k v kvs))"
  by (cases d) auto

lemma py_lower_eq_Inr: "py_lower x = Inr s \<longleftrightarrow> (\<exists>t. x = JStr t \<and> s = map lower_char t)"
  by (cases x) auto

lemma dict_get_eq_Inr: "dict_get d k = Inr v \<longleftrightarrow> map_of d k = Some v"
  by (simp add: dict_get_def split: option.splits)

lemma map_of_eq_None_keys: "map_of kvs k = None \<longleftrightarrow> k \<notin> fst ` set kvs"
  by (simp add: map_of_eq_None_iff)

lemmas transform_defs =
  transform_def add_project_def bind_project_def inject_variables_def
  inject_variable_list_def inject_entry_def dict_get_def lower_char_def
  remove_export_keys_def pop_if_present_def json_loads_def json_dumps_def

lemma example_transform:
  "transform ''p1'' (Some (JStr ''U1'')) example_table (Some example_document) =
     Inr (Some example_result)"
  by (simp add: transform_defs example_document_def example_table_def example_result_def)

section \<open>Removal of the export-only keys\<close>

lemma pop_if_present_obj: "pop_if_present k (JObj kvs) = Inr (JObj (AList.delete k kvs))"
  by (auto simp: pop_if_present_def map_of_eq_None_keys split: option.splits)

lemma remove_export_keys_obj:
  "remove_export_keys (Some (JObj kvs)) =
     Inr (Some (JObj (AList.delete ''product_version'' (AList.delete ''status'' kvs))))"
  by (simp add: remove_export_keys_def json_loads_def json_dumps_def pop_if_present_obj)

lemma bind_project_obj: "bind_project u d = Inr d' \<Longrightarrow> \<exists>kvs. d' = JObj kvs"
  by (auto simp: bind_project_def and_then_eq_Inr setitem_eq_Inr)

lemma inject_variables_obj: "inject_variables t d = Inr d' \<Longrightarrow> \<exists>kvs. d' = JObj kvs"
  by (auto simp: inject_variables_def and_then_eq_Inr setitem_eq_Inr)

lemma add_project_obj: "add_project u t raw = Inr raw' \<Longrightarrow> \<exists>kvs. raw' = Some (JObj kvs)"
  by (auto simp: add_project_def and_then_eq_Inr json_dumps_def split: if_splits
       dest: bind_project_obj inject_variables_obj)

text \<open>
  C6. Whenever the transformation of a document (a dictionary at top level) yields a
  document to upload, that document has neither a top-level \<open>status\<close> key nor a top-level
  \<open>product_version\<close> key, whether or not a project was named. When no project was named
  the transformation always yields a document: the input with exactly these two keys
  deleted.
\<close>

theorem transform_removes_export_keys:
  "(transform p u t (Some (JObj kvs)) = Inr out \<longrightarrow>
      (\<exists>kvs'. out = Some (JObj kvs') \<and> ''status'' \<notin> fst ` set kvs' \<and>
         ''product_version'' \<notin> fst ` set kvs'))
   \<and> transform ''none'' u t (Some (JObj kvs)) =
        Inr (Some (JObj (AList.delete ''product_version'' (AList.delete ''status'' kvs))))"
proof
  show "transform p u t (Some (JObj kvs)) = Inr out \<longrightarrow>
      (\<exists>kvs'. out = Some (JObj kvs') \<and> ''status'' \<notin> fst ` set kvs' \<and>
         ''product_version'' \<notin> fst ` set kvs')"
  proof
    assume "transform p u t (Some (JObj kvs)) = Inr out"
    then obtain mid where "remove_export_keys (Some (JObj mid)) = Inr out"
      by (auto simp: transform_def and_then_eq_Inr split: if_splits dest: add_project_obj)
    then have out: "out = Some (JObj (AList.delete ''product_version'' (AList.delete ''status'' mid)))"
      by (simp add: remove_export_keys_obj)
    have "''status'' \<notin> fst ` set (AList.delete ''product_version'' (AList.delete ''status'' mid))"
      using delete_notin_dom [of "''status''" mid]
        dom_delete_subset [of "''product_version''" "AList.delete ''status'' mid"]
      by blast
    moreover have "''product_version'' \<notin>
        fst ` set (AList.delete ''product_version'' (AList.delete ''status'' mid))"
      by (rule delete_notin_dom)
    ultimately show "\<exists>kvs'. out = Some (JObj kvs') \<and> ''status'' \<notin> fst ` set kvs' \<and>
        ''product_version'' \<notin> fst ` set kvs'"
      using out by blast
  qed
next
  show "transform ''none'' u t (Some (JObj kvs)) =
        Inr (Some (JObj (AList.delete ''product_version'' (AList.delete ''status'' kvs))))"
    by (simp add: transform_def remove_export_keys_obj)
qed

theorem transform_removes_export_keys_witness:
  "transform ''p1'' (Some (JStr ''U1'')) example_table (Some (JObj exported_items)) =
     Inr (Some exported_result)
   \<and> (\<exists>kvs'. Some exported_result = Some (JObj kvs') \<and> ''status'' \<notin> fst ` set kvs' \<and>
         ''product_version'' \<notin> fst ` set kvs')"
proof -
  have run: "transform ''p1'' (Some (JStr ''U1'')) example_table (Some (JObj exported_items)) =
      Inr (Some exported_result)"
    by (simp add: transform_defs exported_items_def exported_metadata_def example_table_def
          exported_result_def)
  with transform_removes_export_keys
    [of "''p1''" "Some (JStr ''U1'')" example_table exported_items "Some exported_result"]
  show ?thesis by blast
qed

section \<open>The project reference\<close>

lemma bind_project_result:
  assumes "bind_project (Some U) d = Inr d'"
  shows "\<exists>kvs m. d' = JObj kvs \<and> map_of kvs ''metadata'' = Some (JObj m) \<and>
           map_of m ''project_reference'' = Some (JObj [(''kind'', JStr ''project''), (''uuid'', U)])"
  using assms
  by (auto simp: bind_project_def and_then_eq_Inr setitem_eq_Inr getitem_eq_Inr update_conv')

lemma bind_project_eq:
  assumes "map_of kvs ''metadata'' = Some (JObj m)"
  shows "bind_project (Some U) (JObj kvs) =
     Inr (JObj (AList.update ''metadata''
        (JObj (AList.update ''project_reference''
           (JObj [(''kind'', JStr ''project''), (''uuid'', U)]) m)) kvs))"
  using assms by (simp add: bind_project_def update_conv')

lemma inject_variables_metadata:
  assumes "inject_variables t (JObj kvs) = Inr d'"
  shows "\<exists>kvs'. d' = JObj kvs' \<and> map_of kvs' ''metadata'' = map_of kvs ''metadata''"
  using assms
  by (auto simp: inject_variables_def and_then_eq_Inr setitem_eq_Inr update_conv')

lemma add_project_result:
  assumes "add_project (Some U) t raw = Inr out"
  shows "\<exists>kvs m. out = Some (JObj kvs) \<and> map_of kvs ''metadata'' = Some (JObj m) \<and>
           map_of m ''project_reference'' = Some (JObj [(''kind'', JStr ''project''), (''uuid'', U)])"
proof -
  from assms obtain parsed d1 aware d2 where
    b: "bind_project (Some U) parsed = Inr d1" and
    i: "(if aware then inject_variables t d1 else Inr d1) = Inr d2" and
    o: "out = Some d2"
    by (auto simp: add_project_def and_then_eq_Inr json_dumps_def)
  from bind_project_result [OF b] obtain kvs m where
    d1: "d1 = JObj kvs" "map_of kvs ''metadata'' = Some (JObj m)"
      "map_of m ''project_reference'' = Some (JObj [(''kind'', JStr ''project''), (''uuid'', U)])"
    by blast
  show ?thesis
  proof (cases aware)
    case True
    with i d1 have "inject_variables t (JObj kvs) = Inr d2" by simp
    from inject_variables_metadata [OF this] d1 o show ?thesis by auto
  next
    case False
    with i d1 o show ?thesis by auto
  qed
qed

text \<open>
  C7. When a project was named and resolved to the identifier \<open>U\<close>, every document the
  transformation yields has, under \<open>metadata\<close>, a \<open>project_reference\<close> that is exactly
  the dictionary with the two keys \<open>kind\<close> (the string \<open>project\<close>) and \<open>uuid\<close> (\<open>U\<close>):
  nothing of an earlier reference is left. The transformation does yield a document for
  every dictionary whose \<open>metadata\<close> is a dictionary with a string \<open>name\<close> that does not
  mark the variable-aware blueprint: the input with the reference replaced and the two
  export-only keys deleted.
\<close>

theorem transform_sets_project_reference:
  "(p \<noteq> ''none'' \<longrightarrow> transform p (Some U) t raw = Inr out \<longrightarrow>
      (\<exists>d m. out = Some d \<and> getitem d ''metadata'' = Inr m \<and>
         getitem m ''project_reference'' = Inr (JObj [(''kind'', JStr ''project''), (''uuid'', U)])))
   \<and> (p \<noteq> ''none'' \<longrightarrow> map_of kvs ''metadata'' = Some (JObj m) \<longrightarrow>
        map_of m ''name'' = Some (JStr n) \<longrightarrow> \<not> substring ''EraServerDeployment'' n \<longrightarrow>
        transform p (Some U) t (Some (JObj kvs)) =
          Inr (Some (JObj (AList.delete ''product_version'' (AList.delete ''status''
            (AList.update ''metadata''
               (JObj (AList.update ''project_reference''
                  (JObj [(''kind'', JStr ''project''), (''uuid'', U)]) m)) kvs))))))"
proof (intro conjI impI)
  assume p: "p \<noteq> ''none''" and tr: "transform p (Some U) t raw = Inr out"
  from p tr obtain mid where a: "add_project (Some U) t raw = Inr mid"
    and r: "remove_export_keys mid = Inr out"
    by (auto simp: transform_def and_then_eq_Inr)
  from add_project_result [OF a] obtain kvs m where
    mid: "mid = Some (JObj kvs)" "map_of kvs ''metadata'' = Some (JObj m)"
      "map_of m ''project_reference'' = Some (JObj [(''kind'', JStr ''project''), (''uuid'', U)])"
    by blast
  from r mid have "out = Some (JObj (AList.delete ''product_version'' (AList.delete ''status'' kvs)))"
    by (simp add: remove_export_keys_obj)
  with mid show "\<exists>d m. out = Some d \<and> getitem d ''metadata'' = Inr m \<and>
         getitem m ''project_reference'' = Inr (JObj [(''kind'', JStr ''project''), (''uuid'', U)])"
    by simp
next
  assume "p \<noteq> ''none''" "map_of kvs ''metadata'' = Some (JObj m)"
    "map_of m ''name'' = Some (JStr n)" "\<not> substring ''EraServerDeployment'' n"
  then show "transform p (Some U) t (Some (JObj kvs)) =
          Inr (Some (JObj (AList.delete ''product_version'' (AList.delete ''status''
            (AList.update ''metadata''
               (JObj (AList.update ''project_reference''
                  (JObj [(''kind'', JStr ''project''), (''uuid'', U)]) m)) kvs)))))"
    by (simp add: transform_def add_project_def json_loads_def json_dumps_def bind_project_eq
          update_conv' remove_export_keys_obj)
qed

theorem transform_sets_project_reference_witness:
  "''p1'' \<noteq> ''none'' \<and>
   map_of exported_items ''metadata'' = Some (JObj exported_metadata) \<and>
   map_of exported_metadata ''name'' = Some (JStr ''Wordpress'') \<and>
   \<not> substring ''EraServerDeployment'' ''Wordpress'' \<and>
   transform ''p1'' (Some (JStr ''U1'')) example_table (Some (JObj exported_items)) =
     Inr (Some exported_result) \<and>
   (\<exists>d m. Some exported_result = Some d \<and> getitem d ''metadata'' = Inr m \<and>
      getitem m ''project_reference'' =
        Inr (JObj [(''kind'', JStr ''project''), (''uuid'', JStr ''U1'')]))"
proof -
  have p: "''p1'' \<noteq> ''none''" by simp
  have md: "map_of exported_items ''metadata'' = Some (JObj exported_metadata)"
    by (simp add: exported_items_def)
  have nm: "map_of exported_metadata ''name'' = Some (JStr ''Wordpress'')"
    by (simp add: exported_metadata_def)
  have plain: "\<not> substring ''EraServerDeployment'' ''Wordpress''" by simp
  note inst = transform_sets_project_reference
    [of "''p1''" "JStr ''U1''" example_table "Some (JObj exported_items)" "Some exported_result"
        exported_items exported_metadata "''Wordpress''"]
  from inst p md nm plain
  have "transform ''p1'' (Some (JStr ''U1'')) example_table (Some (JObj exported_items)) =
      Inr (Some (JObj (AList.delete ''product_version'' (AList.delete ''status''
        (AList.update ''metadata''
           (JObj (AList.update ''project_reference''
              (JObj [(''kind'', JStr ''project''), (''uuid'', JStr ''U1'')]) exported_metadata))
           exported_items)))))"
    by blast
  then have run: "transform ''p1'' (Some (JStr ''U1'')) example_table (Some (JObj exported_items)) =
      Inr (Some exported_result)"
    by (simp add: exported_items_def exported_metadata_def exported_result_def)
  from inst p run md nm plain show ?thesis by blast
qed

section \<open>Variable injection\<close>

lemma set_if_given_keys:
  "k \<in> fst ` set d \<Longrightarrow> fst ` set (set_if_given k arg d) = fst ` set d"
  by (auto simp: set_if_given_def dom_update split: option.splits)

lemma default_variables_keys:
  "fst ` set default_variables =
     {''pe_vip'', ''ctr_uuid'', ''clstr_name'', ''ctr_name'', ''era_id'', ''network_name'',
      ''network_vlan''}"
  by (simp add: default_variables_def)

lemma dict_variables_keys:
  "fst ` set (dict_variables (get_options e a)) =
     {''pe_vip'', ''ctr_uuid'', ''clstr_name'', ''ctr_name'', ''era_id'', ''network_name'',
      ''network_vlan''}"
  by (simp add: get_options_def set_if_given_keys default_variables_keys)

lemma map_of_set_if_given_other:
  "k' \<noteq> k \<Longrightarrow> map_of (set_if_given k arg d) k' = map_of d k'"
  by (simp add: set_if_given_def update_conv' split: option.splits)

lemma set_if_given_none:
  "map_of d k = Some ''none'' \<Longrightarrow> set_if_given k (Some ''none'') d = set_if_given k None d"
  by (simp add: set_if_given_def update_triv)

lemma default_variables_none:
  "k \<in> fst ` set default_variables \<Longrightarrow> map_of default_variables k = Some ''none''"
  by (auto simp: default_variables_def)

text \<open>The three cases of the loop body, for an entry with a string name: a value other
  than \<open>none\<close> in the table is written, the value \<open>none\<close> leaves the entry as it is, and
  a name the table does not have raises.\<close>

lemma inject_entry_overwrites:
  assumes "getitem var_dict ''name'' = Inr (JStr n)" "dict_get t (map lower_char n) = Inr v"
    "v \<noteq> ''none''"
  shows "inject_entry t var_dict = setitem var_dict ''value'' (JStr v)"
  using assms by (simp add: inject_entry_def)

lemma inject_entry_sentinel:
  assumes "getitem var_dict ''name'' = Inr (JStr n)"
    "dict_get t (map lower_char n) = Inr ''none''"
  shows "inject_entry t var_dict = Inr var_dict"
  using assms by (simp add: inject_entry_def)

lemma inject_entry_absent:
  assumes "getitem var_dict ''name'' = Inr (JStr n)" "map lower_char n \<notin> fst ` set t"
  shows "inject_entry t var_dict = Inl KeyError"
  using assms by (simp add: inject_entry_def dict_get_def map_of_eq_None_keys [symmetric])

lemma inject_entry_cases:
  assumes "inject_entry t var_dict = Inr var_dict'"
  shows "var_dict' = var_dict \<or>
    (\<exists>v. v \<noteq> ''none'' \<and> setitem var_dict ''value'' (JStr v) = Inr var_dict')"
  using assms by (auto simp: inject_entry_def and_then_eq_Inr split: if_splits)

text \<open>
  C10. An entry whose table value is the string \<open>none\<close> is left as it is by the loop
  body; an entry that the loop body returns with the value \<open>none\<close> is the entry it was
  given, so \<open>none\<close> is never written; and for each of the seven flags, giving the value
  \<open>none\<close> on the command line builds the same table as not giving the flag.
\<close>

theorem none_is_never_injected:
  "(getitem var_dict ''name'' = Inr (JStr n) \<longrightarrow>
      dict_get t (map lower_char n) = Inr ''none'' \<longrightarrow> inject_entry t var_dict = Inr var_dict)
   \<and> (inject_entry t var_dict = Inr var_dict' \<longrightarrow>
        getitem var_dict' ''value'' = Inr (JStr ''none'') \<longrightarrow> var_dict' = var_dict)
   \<and> dict_variables (get_options e (a\<lparr>arg_pe_vip := Some ''none''\<rparr>)) =
       dict_variables (get_options e (a\<lparr>arg_pe_vip := None\<rparr>))
   \<and> dict_variables (get_options e (a\<lparr>arg_ctr_uuid := Some ''none''\<rparr>)) =
       dict_variables (get_options e (a\<lparr>arg_ctr_uuid := None\<rparr>))
   \<and> dict_variables (get_options e (a\<lparr>arg_clstr_name := Some ''none''\<rparr>)) =
       dict_variables (get_options e (a\<lparr>arg_clstr_name := None\<rparr>))
   \<and> dict_variables (get_options e (a\<lparr>arg_ctr_name := Some ''none''\<rparr>)) =
       dict_variables (get_options e (a\<lparr>arg_ctr_name := None\<rparr>))
   \<and> dict_variables (get_options e (a\<lparr>arg_era_id := Some ''none''\<rparr>)) =
       dict_variables (get_options e (a\<lparr>arg_era_id := None\<rparr>))
   \<and> dict_variables (get_options e (a\<lparr>arg_network_name := Some ''none''\<rparr>)) =
       dict_variables (get_options e (a\<lparr>arg_network_name := None\<rparr>))
   \<and> dict_variables (get_options e (a\<lparr>arg_network_vlan := Some ''none''\<rparr>)) =
       dict_variables (get_options e (a\<lparr>arg_network_vlan := None\<rparr>))"
proof (intro conjI impI)
  assume "getitem var_dict ''name'' = Inr (JStr n)"
    "dict_get t (map lower_char n) = Inr ''none''"
  then show "inject_entry t var_dict = Inr var_dict" by (rule inject_entry_sentinel)
next
  assume i: "inject_entry t var_dict = Inr var_dict'"
    and v: "getitem var_dict' ''value'' = Inr (JStr ''none'')"
  from inject_entry_cases [OF i] v show "var_dict' = var_dict"
    by (auto simp: setitem_eq_Inr update_conv')
qed (simp_all add: get_options_def set_if_given_none map_of_set_if_given_other
       default_variables_none default_variables_keys)

theorem none_is_never_injected_witness:
  "getitem none_entry ''name'' = Inr (JStr ''PE_VIP'') \<and>
   dict_get (dict_variables (get_options example_env (example_args\<lparr>arg_pe_vip := Some ''none''\<rparr>)))
     (map lower_char ''PE_VIP'') = Inr ''none'' \<and>
   getitem none_entry ''value'' = Inr (JStr ''none'') \<and>
   inject_entry (dict_variables (get_options example_env (example_args\<lparr>arg_pe_vip := Some ''none''\<rparr>)))
     none_entry = Inr none_entry"
proof -
  have name: "getitem none_entry ''name'' = Inr (JStr ''PE_VIP'')"
    by (simp add: none_entry_def)
  have look: "dict_get (dict_variables (get_options example_env
      (example_args\<lparr>arg_pe_vip := Some ''none''\<rparr>))) (map lower_char ''PE_VIP'') = Inr ''none''"
    by (simp add: get_options_def example_args_def set_if_given_def default_variables_def
          dict_get_def lower_char_def)
  have val: "getitem none_entry ''value'' = Inr (JStr ''none'')"
    by (simp add: none_entry_def)
  from none_is_never_injected
    [of none_entry "''PE_VIP''"
        "dict_variables (get_options example_env (example_args\<lparr>arg_pe_vip := Some ''none''\<rparr>))"
        none_entry] name look val
  show ?thesis by blast
qed

text \<open>
  C3. The loop body looks the lower-cased name up with \<^verbatim>\<open>dict_variables[variable_name]\<close>.
  The table always has exactly the seven names of line 86, so for an entry with any other
  name the lookup raises \<^verbatim>\<open>KeyError\<close>: the entry is not skipped.
\<close>

theorem unknown_variable_raises:
  assumes "getitem var_dict ''name'' = Inr (JStr n)"
    and "map lower_char n \<notin> {''pe_vip'', ''ctr_uuid'', ''clstr_name'', ''ctr_name'', ''era_id'',
           ''network_name'', ''network_vlan''}"
  shows "inject_entry (dict_variables (get_options e a)) var_dict = Inl KeyError"
  using assms by (simp add: inject_entry_absent dict_variables_keys)

theorem unknown_variable_raises_witness:
  "getitem unknown_entry ''name'' = Inr (JStr ''ERA_VERSION'') \<and>
   map lower_char ''ERA_VERSION'' \<notin> {''pe_vip'', ''ctr_uuid'', ''clstr_name'', ''ctr_name'',
      ''era_id'', ''network_name'', ''network_vlan''} \<and>
   inject_entry (dict_variables (get_options example_env example_args)) unknown_entry =
     Inl KeyError"
proof -
  have name: "getitem unknown_entry ''name'' = Inr (JStr ''ERA_VERSION'')"
    by (simp add: unknown_entry_def)
  have other: "map lower_char ''ERA_VERSION'' \<notin> {''pe_vip'', ''ctr_uuid'', ''clstr_name'',
      ''ctr_name'', ''era_id'', ''network_name'', ''network_vlan''}"
    by (simp add: lower_char_def)
  from unknown_variable_raises [OF name other, of example_env example_args] name other
  show ?thesis by blast
qed

text \<open>The whole transformation of a variable-aware document with such an entry raises.\<close>

lemma unknown_variable_aborts_transform:
  "transform ''p1'' (Some (JStr ''U1'')) (dict_variables (get_options example_env example_args))
     (Some unknown_document) = Inl KeyError"
  by (simp add: transform_defs unknown_document_def unknown_entry_def get_options_def
        example_args_def set_if_given_def default_variables_def)

section \<open>Project resolution\<close>

lemma scan_projects_step:
  "scan_projects w (x # rest) (f, u) =
     and_then (entity_name x) (\<lambda>n.
       if n = JStr w then and_then (entity_uuid x) (\<lambda>v. scan_projects w rest (True, Some v))
       else scan_projects w rest (f, u))"
  by (simp add: entity_name_def entity_uuid_def and_then_def split: sum.splits)

lemma scan_projects_no_match:
  assumes "\<forall>x\<in>set es. \<exists>n. entity_name x = Inr n \<and> n \<noteq> JStr w"
  shows "scan_projects w es acc = Inr acc"
  using assms
proof (induction es arbitrary: acc)
  case Nil
  then show ?case by simp
next
  case (Cons x es)
  obtain f u where acc: "acc = (f, u)" by (cases acc)
  from Cons.prems obtain n where "entity_name x = Inr n" "n \<noteq> JStr w" by auto
  with Cons acc show ?case by (simp add: scan_projects_step del: scan_projects.simps)
qed

lemma scan_projects_last_match:
  assumes "\<forall>x\<in>set pre. \<exists>n. entity_name x = Inr n \<and> (n = JStr w \<longrightarrow> (\<exists>v. entity_uuid x = Inr v))"
    and "entity_name e = Inr (JStr w)" and "entity_uuid e = Inr u"
    and "\<forall>x\<in>set post. \<exists>n. entity_name x = Inr n \<and> n \<noteq> JStr w"
  shows "scan_projects w (pre @ e # post) acc = Inr (True, Some u)"
  using assms(1)
proof (induction pre arbitrary: acc)
  case Nil
  obtain f v where acc: "acc = (f, v)" by (cases acc)
  show ?case
    using assms(2,3) scan_projects_no_match [OF assms(4)] acc
    by (simp add: scan_projects_step del: scan_projects.simps)
next
  case (Cons x pre)
  obtain f v where acc: "acc = (f, v)" by (cases acc)
  from Cons.prems obtain n where n: "entity_name x = Inr n"
    "n = JStr w \<longrightarrow> (\<exists>v. entity_uuid x = Inr v)" by auto
  from Cons.prems have rest: "\<forall>x\<in>set pre. \<exists>n. entity_name x = Inr n \<and> (n = JStr w \<longrightarrow> (\<exists>v. entity_uuid x = Inr v))"
    by simp
  show ?case
  proof (cases "n = JStr w")
    case True
    with n obtain v' where "entity_uuid x = Inr v'" by auto
    with n True acc Cons.IH [OF rest] show ?thesis
      by (simp add: scan_projects_step del: scan_projects.simps)
  next
    case False
    with n acc Cons.IH [OF rest] show ?thesis
      by (simp add: scan_projects_step del: scan_projects.simps)
  qed
qed

text \<open>
  C9. The scan of the listed projects does not stop at a match. When the listing is a list
  in which every project before the last match has a name (and an identifier where the
  name matches), the last project whose name equals the requested one has the identifier
  \<open>u\<close>, and no project after it has that name, the resolution ends with
  \<^verbatim>\<open>project_found\<close> true and \<^verbatim>\<open>project_uuid\<close> equal to \<open>u\<close>, whatever
  earlier matches there were, after exactly one request.
\<close>

theorem last_matching_project_wins:
  assumes "project opts \<noteq> ''none''"
    and "get_info e (projects_request opts) = Inr results"
    and "getitem results ''entities'' = Inr (JArr (pre @ current # post))"
    and "\<forall>x\<in>set pre. \<exists>n. entity_name x = Inr n \<and> (n = JStr (project opts) \<longrightarrow> (\<exists>v. entity_uuid x = Inr v))"
    and "entity_name current = Inr (JStr (project opts))" and "entity_uuid current = Inr u"
    and "\<forall>x\<in>set post. \<exists>n. entity_name x = Inr n \<and> n \<noteq> JStr (project opts)"
  shows "resolve_project e opts st = (Inr (Some True, Some u), send (projects_request opts) st)"
  using assms(1,2,3) scan_projects_last_match [OF assms(4,5,6,7)]
  by (simp add: resolve_project_def)

lemma example_options:
  "get_options example_env example_args =
     \<lparr>cluster_ip = ''10.0.0.1'', username = ''admin'', password = ''secret'',
      directory = ''blueprints/'', project = ''p1'', dict_variables = example_table\<rparr>"
  by (simp add: get_options_def example_args_def or_default_def set_if_given_def
        default_variables_def example_table_def example_env_def)

lemma example_files:
  "glob example_env (rstrip_slash ''blueprints/'' @ ''/*.json'') = [''blueprints/era.json'']"
  by (simp add: example_env_def rstrip_slash_def)

lemma example_get_info:
  "get_info example_env r =
     (if req_path r = ''projects/list'' then Inr example_listing else Inr (JObj []))"
  by (simp add: example_env_def)

lemma example_entities:
  "entity_name (listed_project n u) = Inr (JStr n)" "entity_uuid (listed_project n u) = Inr (JStr u)"
  by (simp_all add: entity_name_def entity_uuid_def listed_project_def)

theorem last_matching_project_wins_witness:
  "project (get_options example_env example_args) \<noteq> ''none'' \<and>
   get_info example_env (projects_request (get_options example_env example_args)) = Inr example_listing \<and>
   getitem example_listing ''entities'' =
     Inr (JArr ([listed_project ''p1'' ''U0'', listed_project ''default'' ''U9''] @
                listed_project ''p1'' ''U1'' # [listed_project ''p2'' ''U2''])) \<and>
   entity_name (listed_project ''p1'' ''U0'') = Inr (JStr ''p1'') \<and>
   entity_uuid (listed_project ''p1'' ''U0'') = Inr (JStr ''U0'') \<and>
   entity_name (listed_project ''p1'' ''U1'') = Inr (JStr ''p1'') \<and>
   entity_uuid (listed_project ''p1'' ''U1'') = Inr (JStr ''U1'') \<and>
   resolve_project example_env (get_options example_env example_args) \<lparr>stdout = [], requests = []\<rparr> =
     (Inr (Some True, Some (JStr ''U1'')),
      \<lparr>stdout = [], requests = [projects_request (get_options example_env example_args)]\<rparr>)"
proof -
  let ?opts = "get_options example_env example_args"
  have p: "project ?opts \<noteq> ''none''" by (simp add: example_options)
  have g: "get_info example_env (projects_request ?opts) = Inr example_listing"
    by (simp add: example_env_def projects_request_def)
  have l: "getitem example_listing ''entities'' =
     Inr (JArr ([listed_project ''p1'' ''U0'', listed_project ''default'' ''U9''] @
                listed_project ''p1'' ''U1'' # [listed_project ''p2'' ''U2'']))"
    by (simp add: example_listing_def)
  have pre: "\<forall>x\<in>set [listed_project ''p1'' ''U0'', listed_project ''default'' ''U9''].
      \<exists>n. entity_name x = Inr n \<and> (n = JStr (project ?opts) \<longrightarrow> (\<exists>v. entity_uuid x = Inr v))"
    by (simp add: example_entities)
  have cur: "entity_name (listed_project ''p1'' ''U1'') = Inr (JStr (project ?opts))"
    "entity_uuid (listed_project ''p1'' ''U1'') = Inr (JStr ''U1'')"
    by (simp_all add: example_entities example_options)
  have post: "\<forall>x\<in>set [listed_project ''p2'' ''U2''].
      \<exists>n. entity_name x = Inr n \<and> n \<noteq> JStr (project ?opts)"
    by (simp add: example_entities example_options)
  from last_matching_project_wins [OF p g l pre cur post, of "\<lparr>stdout = [], requests = []\<rparr>"]
  have "resolve_project example_env ?opts \<lparr>stdout = [], requests = []\<rparr> =
     (Inr (Some True, Some (JStr ''U1'')), \<lparr>stdout = [], requests = [projects_request ?opts]\<rparr>)"
    by (simp add: send_def)
  with p g l show ?thesis by (simp add: example_entities)
qed

section \<open>The run as a whole\<close>

lemma import_all_cases:
  "import_all e opts bl st = (Inl UnboundLocalError, st) \<and> project opts = ''none'' \<or>
   project opts \<noteq> ''none'' \<and>
     (\<exists>err. import_all e opts bl st = (Inl err, send (projects_request opts) st)) \<or>
   project opts \<noteq> ''none'' \<and>
     import_all e opts bl st =
       (Inl TypeError, print (''\<newline>Project'' @ project opts @ '' exists.'') (send (projects_request opts) st)) \<or>
   project opts \<noteq> ''none'' \<and>
     import_all e opts bl st =
       (Inl SystemExit, print (''\<newline>Project '' @ project opts @ '' was not found.  Please check the name and retry.'')
          (send (projects_request opts) st))"
  by (auto simp: import_all_def resolve_project_def Let_def split: sum.splits prod.splits option.splits)

lemma main_nonempty:
  assumes "cluster_ip (get_options e a) \<noteq> []" "username (get_options e a) \<noteq> []"
    "password (get_options e a) \<noteq> []"
    and "glob e (rstrip_slash (directory (get_options e a)) @ ''/*.json'') \<noteq> []"
  shows "main e a =
    (case import_all e (get_options e a)
            (glob e (rstrip_slash (directory (get_options e a)) @ ''/*.json''))
            \<lparr>stdout = [], requests = []\<rparr> of
       (Inl err, st) \<Rightarrow> (Inl err, st)
     | (Inr _, st) \<Rightarrow> (Inr (), print ''\<newline>Finished!\<newline>'' st))"
  using assms by (simp add: main_def Let_def)

text \<open>
  C1. In the default mode (no project named) with the address, the user name and the
  password present and at least one file found, no request is sent. The test of
  \<^verbatim>\<open>project_found\<close> on line 148 stands outside the branch that assigns it, so the run
  then raises \<^verbatim>\<open>UnboundLocalError\<close> there: nothing is printed and no file is
  processed.
\<close>

theorem default_mode_raises:
  assumes "cluster_ip (get_options e a) \<noteq> []" "username (get_options e a) \<noteq> []"
    "password (get_options e a) \<noteq> []"
    and "project (get_options e a) = ''none''"
    and "glob e (rstrip_slash (directory (get_options e a)) @ ''/*.json'') \<noteq> []"
  shows "main e a = (Inl UnboundLocalError, \<lparr>stdout = [], requests = []\<rparr>)"
proof -
  have "import_all e (get_options e a)
          (glob e (rstrip_slash (directory (get_options e a)) @ ''/*.json''))
          \<lparr>stdout = [], requests = []\<rparr> = (Inl UnboundLocalError, \<lparr>stdout = [], requests = []\<rparr>)"
    using assms(4) by (simp add: import_all_def resolve_project_def)
  then show ?thesis
    using main_nonempty [OF assms(1,2,3,5)] by simp
qed

theorem default_mode_raises_witness:
  "cluster_ip (get_options example_env (example_args\<lparr>arg_project := None\<rparr>)) \<noteq> [] \<and>
   username (get_options example_env (example_args\<lparr>arg_project := None\<rparr>)) \<noteq> [] \<and>
   password (get_options example_env (example_args\<lparr>arg_project := None\<rparr>)) \<noteq> [] \<and>
   project (get_options example_env (example_args\<lparr>arg_project := None\<rparr>)) = ''none'' \<and>
   glob example_env (rstrip_slash (directory (get_options example_env
      (example_args\<lparr>arg_project := None\<rparr>))) @ ''/*.json'') = [''blueprints/era.json''] \<and>
   main example_env (example_args\<lparr>arg_project := None\<rparr>) =
     (Inl UnboundLocalError, \<lparr>stdout = [], requests = []\<rparr>)"
proof -
  have opts: "get_options example_env (example_args\<lparr>arg_project := None\<rparr>) =
     \<lparr>cluster_ip = ''10.0.0.1'', username = ''admin'', password = ''secret'',
      directory = ''blueprints/'', project = ''none'',
      dict_variables = example_table\<rparr>"
    by (simp add: get_options_def example_args_def or_default_def set_if_given_def
          default_variables_def example_table_def example_env_def)
  have files: "glob example_env (rstrip_slash ''blueprints/'' @ ''/*.json'') = [''blueprints/era.json'']"
    by (simp add: example_env_def rstrip_slash_def)
  from default_mode_raises [of example_env "example_args\<lparr>arg_project := None\<rparr>"] opts files
  show ?thesis by simp
qed

text \<open>
  C2. With at least one file found, the run never ends normally and never sends an import
  request. When the project was named and found, line 157 adds the number of files to a
  string, which raises \<^verbatim>\<open>TypeError\<close>: the run ends there, before the loop over the
  files, having printed only the line about the project.
\<close>

theorem nonempty_run_never_imports:
  assumes "cluster_ip (get_options e a) \<noteq> []" "username (get_options e a) \<noteq> []"
    "password (get_options e a) \<noteq> []"
    and "glob e (rstrip_slash (directory (get_options e a)) @ ''/*.json'') \<noteq> []"
  shows "(\<exists>err. fst (main e a) = Inl err) \<and>
    (\<forall>r\<in>set (requests (snd (main e a))). req_path r \<noteq> ''blueprints/import_json'') \<and>
    (\<forall>u st. resolve_project e (get_options e a) \<lparr>stdout = [], requests = []\<rparr> = (Inr (Some True, u), st) \<longrightarrow>
       main e a = (Inl TypeError, print (''\<newline>Project'' @ project (get_options e a) @ '' exists.'') st))"
proof (intro conjI allI impI)
  let ?bl = "glob e (rstrip_slash (directory (get_options e a)) @ ''/*.json'')"
  let ?st = "\<lparr>stdout = [], requests = []\<rparr>"
  note m = main_nonempty [OF assms]
  from import_all_cases [of e "get_options e a" ?bl ?st]
  show "\<exists>err. fst (main e a) = Inl err"
    by (auto simp: m)
  from import_all_cases [of e "get_options e a" ?bl ?st]
  show "\<forall>r\<in>set (requests (snd (main e a))). req_path r \<noteq> ''blueprints/import_json''"
    by (auto simp: m send_def print_def projects_request_def)
  fix u st
  assume "resolve_project e (get_options e a) ?st = (Inr (Some True, u), st)"
  then have "import_all e (get_options e a) ?bl ?st =
     (Inl TypeError, print (''\<newline>Project'' @ project (get_options e a) @ '' exists.'') st)"
    by (simp add: import_all_def)
  then show "main e a = (Inl TypeError, print (''\<newline>Project'' @ project (get_options e a) @ '' exists.'') st)"
    by (simp add: m)
qed

theorem nonempty_run_never_imports_witness:
  "cluster_ip (get_options example_env example_args) \<noteq> [] \<and>
   username (get_options example_env example_args) \<noteq> [] \<and>
   password (get_options example_env example_args) \<noteq> [] \<and>
   glob example_env (rstrip_slash (directory (get_options example_env example_args)) @ ''/*.json'') =
     [''blueprints/era.json''] \<and>
   resolve_project example_env (get_options example_env example_args) \<lparr>stdout = [], requests = []\<rparr> =
     (Inr (Some True, Some (JStr ''U1'')),
      \<lparr>stdout = [], requests = [projects_request (get_options example_env example_args)]\<rparr>) \<and>
   main example_env example_args =
     (Inl TypeError,
      \<lparr>stdout = [''\<newline>Projectp1 exists.''],
       requests = [projects_request (get_options example_env example_args)]\<rparr>)"
proof -
  let ?opts = "get_options example_env example_args"
  have r: "resolve_project example_env ?opts \<lparr>stdout = [], requests = []\<rparr> =
     (Inr (Some True, Some (JStr ''U1'')), \<lparr>stdout = [], requests = [projects_request ?opts]\<rparr>)"
    by (simp add: resolve_project_def example_options projects_request_def example_get_info
          example_listing_def listed_project_def send_def)
  have c: "cluster_ip ?opts \<noteq> []" "username ?opts \<noteq> []" "password ?opts \<noteq> []"
    by (simp_all add: example_options)
  have f: "glob example_env (rstrip_slash (directory ?opts) @ ''/*.json'') = [''blueprints/era.json'']"
    by (simp add: example_options example_files)
  then have n: "glob example_env (rstrip_slash (directory ?opts) @ ''/*.json'') \<noteq> []" by simp
  from nonempty_run_never_imports [OF c n] r
  have "main example_env example_args =
     (Inl TypeError, print (''\<newline>Project'' @ project ?opts @ '' exists.'')
        \<lparr>stdout = [], requests = [projects_request ?opts]\<rparr>)"
    by blast
  then have "main example_env example_args =
     (Inl TypeError, \<lparr>stdout = [''\<newline>Projectp1 exists.''], requests = [projects_request ?opts]\<rparr>)"
    by (simp add: print_def example_options)
  with c f r show ?thesis by simp
qed

text \<open>
  C5, as the code has it. The number of files is tested first (line 134) and the project
  is looked up only inside that branch: with no file found, whatever project was named,
  no request is sent, and the run prints the line that there is nothing to import and the
  closing line, and ends normally.
\<close>

theorem empty_directory_skips_resolution:
  assumes "cluster_ip (get_options e a) \<noteq> []" "username (get_options e a) \<noteq> []"
    "password (get_options e a) \<noteq> []"
    and "glob e (rstrip_slash (directory (get_options e a)) @ ''/*.json'') = []"
  shows "main e a =
    (Inr (), \<lparr>stdout = [''\<newline>No JSON files found in'' @ directory (get_options e a) @ '' ... nothing to import!'',
                         ''\<newline>Finished!\<newline>''],
             requests = []\<rparr>)"
  using assms by (simp add: main_def Let_def print_def)

theorem empty_directory_skips_resolution_witness:
  "cluster_ip (get_options empty_env example_args) \<noteq> [] \<and>
   username (get_options empty_env example_args) \<noteq> [] \<and>
   password (get_options empty_env example_args) \<noteq> [] \<and>
   glob empty_env (rstrip_slash (directory (get_options empty_env example_args)) @ ''/*.json'') = [] \<and>
   main empty_env example_args =
     (Inr (), \<lparr>stdout = [''\<newline>No JSON files found inblueprints/ ... nothing to import!'',
                          ''\<newline>Finished!\<newline>''],
              requests = []\<rparr>)"
proof -
  let ?opts = "get_options empty_env example_args"
  have c: "cluster_ip ?opts \<noteq> []" "username ?opts \<noteq> []" "password ?opts \<noteq> []"
    by (simp_all add: get_options_def example_args_def or_default_def)
  have f: "glob empty_env (rstrip_slash (directory ?opts) @ ''/*.json'') = []"
    by (simp add: empty_env_def)
  have d: "directory ?opts = ''blueprints/''"
    by (simp add: get_options_def example_args_def or_default_def)
  from empty_directory_skips_resolution [OF c f] c f d show ?thesis by simp
qed

text \<open>
  C5, as stated, fails: with no file found and the project \<open>missing\<close>, which none of the
  listed projects is called, the run does not fail. It prints that there is nothing to
  import and ends normally, without asking for the projects.
\<close>

theorem empty_directory_project_counterexample:
  "project (get_options empty_env missing_args) = ''missing'' \<and>
   glob empty_env (rstrip_slash (directory (get_options empty_env missing_args)) @ ''/*.json'') = [] \<and>
   get_info empty_env (projects_request (get_options empty_env missing_args)) = Inr example_listing \<and>
   scan_projects ''missing''
     [listed_project ''p1'' ''U0'', listed_project ''default'' ''U9'',
      listed_project ''p1'' ''U1'', listed_project ''p2'' ''U2''] (False, None) = Inr (False, None) \<and>
   main empty_env missing_args =
     (Inr (), \<lparr>stdout = [''\<newline>No JSON files found inblueprints/ ... nothing to import!'',
                          ''\<newline>Finished!\<newline>''],
              requests = []\<rparr>)"
  by (simp add: main_def Let_def print_def get_options_def or_default_def missing_args_def
        example_args_def empty_env_def example_env_def projects_request_def listed_project_def)

section \<open>Files that are not blueprints\<close>

text \<open>The text the transformation yields always parses, so the handler of line 200 is never
  entered.\<close>

lemma transform_yields_text:
  assumes "transform p u t raw = Inr out"
  shows "\<exists>d. out = Some d"
  using assms
  by (auto simp: transform_def remove_export_keys_def and_then_eq_Inr json_dumps_def)

lemma getitem_errors: "getitem d k = Inl err \<Longrightarrow> err = KeyError \<or> err = TypeError"
  by (cases d) (auto split: option.splits)

lemma name_check_no_decode_error:
  assumes "transform p u t raw = Inr out"
  shows "and_then (json_loads out) (\<lambda>doc. and_then (getitem doc ''spec'') (\<lambda>spec. getitem spec ''name''))
           \<noteq> Inl JSONDecodeError"
proof -
  from transform_yields_text [OF assms] obtain d where "out = Some d" by blast
  then show ?thesis
    by (auto simp: json_loads_def and_then_def split: sum.splits dest: getitem_errors)
qed

text \<open>
  C4. A file that is not JSON makes \<^verbatim>\<open>json.loads\<close> raise on line 169 or 187, outside
  the \<^verbatim>\<open>try\<close> of line 198, and a document without \<open>spec\<close> or without \<open>spec.name\<close>
  makes line 199 raise \<^verbatim>\<open>KeyError\<close>, which the handler of line 200 does not catch. In
  both cases the loop body ends with that exception: nothing is printed and no request
  is sent.
\<close>

theorem malformed_file_raises_unhandled:
  "(read_file e blueprint = None \<longrightarrow>
      import_file e opts u blueprint st = (Inl JSONDecodeError, st))
   \<and> (read_file e blueprint = Some (JObj kvs) \<longrightarrow> project opts = ''none'' \<longrightarrow>
        ''spec'' \<notin> fst ` set kvs \<longrightarrow> import_file e opts u blueprint st = (Inl KeyError, st))
   \<and> (read_file e blueprint = Some (JObj kvs) \<longrightarrow> project opts = ''none'' \<longrightarrow>
        map_of kvs ''spec'' = Some (JObj sp) \<longrightarrow> ''name'' \<notin> fst ` set sp \<longrightarrow>
        import_file e opts u blueprint st = (Inl KeyError, st))"
proof (intro conjI impI)
  assume "read_file e blueprint = None"
  then show "import_file e opts u blueprint st = (Inl JSONDecodeError, st)"
    by (simp add: import_file_def transform_def add_project_def remove_export_keys_def json_loads_def)
next
  assume "read_file e blueprint = Some (JObj kvs)" "project opts = ''none''" "''spec'' \<notin> fst ` set kvs"
  then show "import_file e opts u blueprint st = (Inl KeyError, st)"
    by (simp add: import_file_def transform_def remove_export_keys_obj json_loads_def
          map_of_eq_None_keys [symmetric])
next
  assume "read_file e blueprint = Some (JObj kvs)" "project opts = ''none''"
    "map_of kvs ''spec'' = Some (JObj sp)" "''name'' \<notin> fst ` set sp"
  then show "import_file e opts u blueprint st = (Inl KeyError, st)"
    by (simp add: import_file_def transform_def remove_export_keys_obj json_loads_def
          map_of_eq_None_keys [symmetric])
qed

theorem malformed_file_raises_unhandled_witness:
  "project (get_options broken_env (example_args\<lparr>arg_project := None\<rparr>)) = ''none'' \<and>
   read_file broken_env ''blueprints/notes.json'' = None \<and>
   import_file broken_env (get_options broken_env (example_args\<lparr>arg_project := None\<rparr>)) None
     ''blueprints/notes.json'' \<lparr>stdout = [], requests = []\<rparr> =
       (Inl JSONDecodeError, \<lparr>stdout = [], requests = []\<rparr>) \<and>
   read_file broken_env ''blueprints/list.json'' = Some (JObj [(''metadata'', JObj [])]) \<and>
   import_file broken_env (get_options broken_env (example_args\<lparr>arg_project := None\<rparr>)) None
     ''blueprints/list.json'' \<lparr>stdout = [], requests = []\<rparr> =
       (Inl KeyError, \<lparr>stdout = [], requests = []\<rparr>) \<and>
   read_file broken_env ''blueprints/bp.json'' =
     Some (JObj [(''metadata'', JObj []), (''spec'', JObj [])]) \<and>
   import_file broken_env (get_options broken_env (example_args\<lparr>arg_project := None\<rparr>)) None
     ''blueprints/bp.json'' \<lparr>stdout = [], requests = []\<rparr> =
       (Inl KeyError, \<lparr>stdout = [], requests = []\<rparr>)"
proof -
  let ?opts = "get_options broken_env (example_args\<lparr>arg_project := None\<rparr>)"
  let ?st = "\<lparr>stdout = [], requests = []\<rparr>"
  have p: "project ?opts = ''none''"
    by (simp add: get_options_def or_default_def example_args_def)
  have f1: "read_file broken_env ''blueprints/notes.json'' = None"
    by (simp add: broken_env_def)
  have f2: "read_file broken_env ''blueprints/list.json'' = Some (JObj [(''metadata'', JObj [])])"
    by (simp add: broken_env_def)
  have f3: "read_file broken_env ''blueprints/bp.json'' =
      Some (JObj [(''metadata'', JObj []), (''spec'', JObj [])])"
    by (simp add: broken_env_def)
  have k2: "''spec'' \<notin> fst ` set [(''metadata'', JObj [])]" by simp
  have k3: "map_of [(''metadata'', JObj []), (''spec'', JObj [])] ''spec'' = Some (JObj [])"
    "''name'' \<notin> fst ` set ([] :: (string \<times> json) list)"
    by simp_all
  from malformed_file_raises_unhandled
    [of broken_env "''blueprints/notes.json''" ?opts None ?st] f1
  have r1: "import_file broken_env ?opts None ''blueprints/notes.json'' ?st =
      (Inl JSONDecodeError, ?st)"
    by blast
  from malformed_file_raises_unhandled
    [of broken_env "''blueprints/list.json''" ?opts None ?st "[(''metadata'', JObj [])]"] f2 p k2
  have r2: "import_file broken_env ?opts None ''blueprints/list.json'' ?st = (Inl KeyError, ?st)"
    by blast
  from malformed_file_raises_unhandled
    [of broken_env "''blueprints/bp.json''" ?opts None ?st
        "[(''metadata'', JObj []), (''spec'', JObj [])]" "[]"] f3 p k3
  have r3: "import_file broken_env ?opts None ''blueprints/bp.json'' ?st = (Inl KeyError, ?st)"
    by blast
  from p f1 f2 f3 r1 r2 r3 show ?thesis by simp
qed

section \<open>Idempotence\<close>

lemma inject_entry_idem:
  assumes "inject_entry t e = Inr e'"
  shows "inject_entry t e' = Inr e'"
proof -
  from assms obtain nm vn v where
    n: "getitem e ''name'' = Inr nm" and l: "py_lower nm = Inr vn" and
    g: "dict_get t vn = Inr v" and
    r: "(if v \<noteq> ''none'' then setitem e ''value'' (JStr v) else Inr e) = Inr e'"
    by (auto simp: inject_entry_def and_then_eq_Inr)
  show ?thesis
  proof (cases "v = ''none''")
    case True
    with r have "e' = e" by simp
    with assms show ?thesis by simp
  next
    case False
    with r have s: "setitem e ''value'' (JStr v) = Inr e'" by simp
    then obtain kvs where e: "e = JObj kvs" "e' = JObj (AList.update ''value'' (JStr v) kvs)"
      by (auto simp: setitem_eq_Inr)
    with n have "getitem e' ''name'' = Inr nm"
      by (simp add: update_conv')
    with l g False e show ?thesis
      by (simp add: inject_entry_def)
  qed
qed

lemma inject_loop_idem:
  "inject_loop t es = Inr es' \<Longrightarrow> inject_loop t es' = Inr es'"
proof (induction es arbitrary: es')
  case Nil
  then show ?case by simp
next
  case (Cons e es)
  from Cons.prems obtain e' rest where
    h: "inject_entry t e = Inr e'" "inject_loop t es = Inr rest" "es' = e' # rest"
    by (auto simp: and_then_eq_Inr)
  with Cons.IH [of rest] inject_entry_idem [of t e e'] show ?case by simp
qed

lemma inject_variable_list_idem:
  assumes "inject_variable_list t vl = Inr vl'"
  shows "inject_variable_list t vl' = Inr vl'"
proof (cases vl)
  case (JArr es)
  with assms obtain es' where "inject_loop t es = Inr es'" "vl' = JArr es'"
    by (auto simp: inject_variable_list_def and_then_eq_Inr)
  with inject_loop_idem [of t es es'] show ?thesis
    by (simp add: inject_variable_list_def)
qed (use assms in \<open>auto simp: inject_variable_list_def and_then_eq_Inr\<close>)

lemma getitem0_eq_Inr:
  "getitem0 d = Inr x \<longleftrightarrow> (\<exists>rest. d = JArr (x # rest)) \<or> (\<exists>c s. d = JStr (c # s) \<and> x = JStr [c])"
  by (cases d) (auto split: list.splits)

lemma inject_variables_local:
  assumes "inject_variables t (JObj kvs) = Inr d'"
  shows "\<exists>S. d' = JObj (AList.update ''spec'' S kvs) \<and>
     (\<forall>kvs2. map_of kvs2 ''spec'' = map_of kvs ''spec'' \<longrightarrow>
        inject_variables t (JObj kvs2) = Inr (JObj (AList.update ''spec'' S kvs2)))"
proof -
  from assms obtain sp S where sp: "getitem (JObj kvs) ''spec'' = Inr sp"
    and inner: "and_then (getitem sp ''resources'') (\<lambda>resources.
     and_then (getitem resources ''service_definition_list'') (\<lambda>definitions.
     and_then (getitem0 definitions) (\<lambda>definition0.
     and_then (getitem definition0 ''variable_list'') (\<lambda>variable_list.
     and_then (inject_variable_list t variable_list) (\<lambda>variable_list.
     and_then (setitem definition0 ''variable_list'' variable_list) (\<lambda>definition0.
     and_then (setitem0 definitions definition0) (\<lambda>definitions.
     and_then (setitem resources ''service_definition_list'' definitions) (\<lambda>resources.
     setitem sp ''resources'' resources)))))))) = Inr S"
    and d': "setitem (JObj kvs) ''spec'' S = Inr d'"
    unfolding inject_variables_def and_then_eq_Inr [of "getitem (JObj kvs) ''spec''"]
    by (auto simp: and_then_eq_Inr)
  have "\<forall>kvs2. map_of kvs2 ''spec'' = map_of kvs ''spec'' \<longrightarrow>
        inject_variables t (JObj kvs2) = Inr (JObj (AList.update ''spec'' S kvs2))"
  proof (intro allI impI)
    fix kvs2 assume "map_of kvs2 ''spec'' = map_of kvs ''spec''"
    with sp have "getitem (JObj kvs2) ''spec'' = Inr sp" by simp
    then show "inject_variables t (JObj kvs2) = Inr (JObj (AList.update ''spec'' S kvs2))"
      using inner unfolding inject_variables_def
      by (auto simp: and_then_eq_Inr)
  qed
  with d' show ?thesis by auto
qed


lemma and_then_assoc: "and_then (and_then m f) g = and_then m (\<lambda>x. and_then (f x) g)"
  by (cases m) simp_all

lemma inject_variables_nested:
  "inject_variables t parsed =
     at_key ''spec'' (at_key ''resources'' (at_key ''service_definition_list''
       (at_first (at_key ''variable_list'' (inject_variable_list t))))) parsed"
  by (simp add: inject_variables_def at_key_def at_first_def and_then_assoc)

lemma at_key_idem:
  assumes f: "\<And>x x'. f x = Inr x' \<Longrightarrow> f x' = Inr x'"
    and "at_key k f d = Inr d'"
  shows "at_key k f d' = Inr d'"
proof -
  from assms(2) obtain kvs x x' where
    "d = JObj kvs" "map_of kvs k = Some x" "f x = Inr x'" "d' = JObj (AList.update k x' kvs)"
    by (auto simp: at_key_def and_then_eq_Inr getitem_eq_Inr setitem_eq_Inr)
  with f [of x x'] show ?thesis
    by (simp add: at_key_def update_conv')
qed

lemma at_first_idem:
  assumes f: "\<And>x x'. f x = Inr x' \<Longrightarrow> f x' = Inr x'"
    and "at_first f d = Inr d'"
  shows "at_first f d' = Inr d'"
proof -
  from assms(2) obtain x x' where g: "getitem0 d = Inr x" and fx: "f x = Inr x'"
    and s: "setitem0 d x' = Inr d'"
    by (auto simp: at_first_def and_then_eq_Inr)
  from s obtain y rest where "d = JArr (y # rest)" "d' = JArr (x' # rest)"
    by (cases d) (auto split: list.splits)
  with f [OF fx] show ?thesis
    by (simp add: at_first_def)
qed

lemma inject_variables_idem:
  assumes "inject_variables t d = Inr d'"
  shows "inject_variables t d' = Inr d'"
  using assms unfolding inject_variables_nested
  by (rule at_key_idem [rotated], intro at_key_idem at_first_idem inject_variable_list_idem)

lemma bind_project_noop:
  assumes "map_of kvs ''metadata'' = Some (JObj m)"
    and "map_of m ''project_reference'' = Some (JObj [(''kind'', JStr ''project''), (''uuid'', U)])"
  shows "bind_project (Some U) (JObj kvs) = Inr (JObj kvs)"
proof -
  from assms(2) have "AList.update ''project_reference''
      (JObj [(''kind'', JStr ''project''), (''uuid'', U)]) m = m"
    by (rule update_triv)
  moreover from assms(1) have "AList.update ''metadata'' (JObj m) kvs = kvs"
    by (rule update_triv)
  ultimately show ?thesis
    using bind_project_eq [OF assms(1), of U] by simp
qed

lemma pop_if_present_cases:
  assumes "pop_if_present k d = Inr d'"
  shows "d' = d \<or> (\<exists>kvs. d = JObj kvs \<and> d' = JObj (AList.delete k kvs))"
proof (cases d)
  case (JObj kvs)
  with assms show ?thesis by (simp add: pop_if_present_obj)
next
  case JNull
  with assms show ?thesis by (simp add: pop_if_present_def)
next
  case (JBool b)
  with assms show ?thesis by (simp add: pop_if_present_def)
next
  case (JNum x)
  with assms show ?thesis by (simp add: pop_if_present_def)
next
  case (JStr s)
  with assms show ?thesis by (simp add: pop_if_present_def split: if_splits)
next
  case (JArr xs)
  with assms show ?thesis by (simp add: pop_if_present_def split: if_splits)
qed


lemma bind_project_bound: "bind_project u d = Inr d' \<Longrightarrow> \<exists>U. u = Some U"
  by (cases u) (auto simp: bind_project_def and_then_eq_Inr)

lemma pop_if_present_idem:
  assumes "pop_if_present k d = Inr d'"
  shows "pop_if_present k d' = Inr d'"
  using pop_if_present_cases [OF assms] assms
  by (auto simp: pop_if_present_obj delete_idem)

lemma pop_if_present_other:
  assumes "pop_if_present k d = Inr d" and "pop_if_present k' d = Inr d'"
  shows "pop_if_present k d' = Inr d'"
proof -
  from pop_if_present_cases [OF assms(2)]
  consider "d' = d" | kvs where "d = JObj kvs" "d' = JObj (AList.delete k' kvs)" by blast
  then show ?thesis
  proof cases
    case 1
    with assms(1) show ?thesis by simp
  next
    case 2
    with assms(1) have "AList.delete k kvs = kvs" by (simp add: pop_if_present_obj)
    then have "AList.delete k (AList.delete k' kvs) = AList.delete k' kvs"
      using delete_twist [of k k' kvs] by simp
    with 2 show ?thesis by (simp add: pop_if_present_obj)
  qed
qed


lemma remove_export_keys_steps:
  assumes "remove_export_keys raw = Inr out"
  shows "\<exists>d d1 d2. raw = Some d \<and> pop_if_present ''status'' d = Inr d1 \<and>
      pop_if_present ''product_version'' d1 = Inr d2 \<and> out = Some d2"
proof (cases raw)
  case None
  with assms show ?thesis by (simp add: remove_export_keys_def json_loads_def)
next
  case (Some d)
  with assms show ?thesis
    by (simp add: remove_export_keys_def json_loads_def json_dumps_def and_then_eq_Inr) blast
qed

lemma remove_export_keys_idem:
  assumes "remove_export_keys raw = Inr out"
  shows "remove_export_keys out = Inr out"
proof -
  from remove_export_keys_steps [OF assms] obtain d d1 d2 where
    h: "raw = Some d" "pop_if_present ''status'' d = Inr d1"
      "pop_if_present ''product_version'' d1 = Inr d2" "out = Some d2"
    by blast
  from h(2) have "pop_if_present ''status'' d1 = Inr d1" by (rule pop_if_present_idem)
  from pop_if_present_other [OF this h(3)] have "pop_if_present ''status'' d2 = Inr d2" .
  moreover from h(3) have "pop_if_present ''product_version'' d2 = Inr d2"
    by (rule pop_if_present_idem)
  ultimately show ?thesis using h(4)
    by (simp add: remove_export_keys_def json_loads_def json_dumps_def)
qed


lemma add_project_fixed:
  assumes a: "add_project u t raw = Inr (Some (JObj kvs))"
    and same: "map_of kvs2 ''metadata'' = map_of kvs ''metadata''"
      "map_of kvs2 ''spec'' = map_of kvs ''spec''"
  shows "add_project u t (Some (JObj kvs2)) = Inr (Some (JObj kvs2))"
proof -
  from a obtain parsed d1 md nm aware where
    b: "bind_project u parsed = Inr d1" and
    g: "getitem d1 ''metadata'' = Inr md" "getitem md ''name'' = Inr nm"
       "py_in ''EraServerDeployment'' nm = Inr aware" and
    i: "(if aware then inject_variables t d1 else Inr d1) = Inr (JObj kvs)"
    by (auto simp: add_project_def and_then_eq_Inr json_dumps_def)
  from bind_project_bound [OF b] obtain U where u: "u = Some U" by blast
  from b u bind_project_result [of U parsed d1] obtain kvs1 m where
    d1: "d1 = JObj kvs1" "map_of kvs1 ''metadata'' = Some (JObj m)"
      "map_of m ''project_reference'' = Some (JObj [(''kind'', JStr ''project''), (''uuid'', U)])"
    by blast
  from g d1 have md: "md = JObj m" by simp
  have meta: "map_of kvs ''metadata'' = Some (JObj m)"
  proof (cases aware)
    case True
    with i d1 have "inject_variables t (JObj kvs1) = Inr (JObj kvs)" by simp
    from inject_variables_metadata [OF this] d1 show ?thesis by simp
  next
    case False
    with i d1 show ?thesis by simp
  qed
  with same have meta2: "map_of kvs2 ''metadata'' = Some (JObj m)" by simp
  from bind_project_noop [OF meta2 d1(3)] u
  have b2: "bind_project u (JObj kvs2) = Inr (JObj kvs2)" by simp
  have i2: "(if aware then inject_variables t (JObj kvs2) else Inr (JObj kvs2)) = Inr (JObj kvs2)"
  proof (cases aware)
    case True
    with i have "inject_variables t d1 = Inr (JObj kvs)" by simp
    then have "inject_variables t (JObj kvs) = Inr (JObj kvs)" by (rule inject_variables_idem)
    from inject_variables_local [OF this] obtain S where
      S: "JObj kvs = JObj (AList.update ''spec'' S kvs)"
        "\<forall>kvs2. map_of kvs2 ''spec'' = map_of kvs ''spec'' \<longrightarrow>
           inject_variables t (JObj kvs2) = Inr (JObj (AList.update ''spec'' S kvs2))"
      by blast
    from S(1) have "kvs = AList.update ''spec'' S kvs" by (simp only: json.inject)
    then have "map_of kvs ''spec'' = map_of (AList.update ''spec'' S kvs) ''spec''"
      by (rule arg_cong)
    then have "map_of kvs ''spec'' = Some S" by (simp only: update_conv' fun_upd_same)
    with same have "AList.update ''spec'' S kvs2 = kvs2" by (simp add: update_triv)
    with S(2) same True show ?thesis by simp
  next
    case False
    then show ?thesis by simp
  qed
  from b2 meta2 md g i2 show ?thesis
    by (simp add: add_project_def json_loads_def json_dumps_def)
qed


text \<open>
  C8. The transformation is idempotent: a document that the transformation yields (for a
  project setting, a project identifier and a table) is yielded unchanged when the
  transformation is applied to it again with the same setting, identifier and table. The
  project reference is written over itself, every variable gets the value it already has,
  and the two export-only keys are absent.
\<close>

theorem transform_idempotent:
  assumes "transform p u t raw = Inr out"
  shows "transform p u t out = Inr out"
proof (cases "p = ''none''")
  case True
  with assms show ?thesis by (simp add: transform_def remove_export_keys_idem)
next
  case False
  with assms obtain mid where a: "add_project u t raw = Inr mid"
    and r: "remove_export_keys mid = Inr out"
    by (auto simp: transform_def and_then_eq_Inr)
  from add_project_obj [OF a] obtain kvs where mid: "mid = Some (JObj kvs)" by blast
  let ?kvs2 = "AList.delete ''product_version'' (AList.delete ''status'' kvs)"
  from r mid have out: "out = Some (JObj ?kvs2)" by (simp add: remove_export_keys_obj)
  have "add_project u t (Some (JObj ?kvs2)) = Inr (Some (JObj ?kvs2))"
    using a mid by (intro add_project_fixed [of u t raw kvs]) simp_all
  with False out remove_export_keys_idem [OF r] show ?thesis
    by (simp add: transform_def)
qed

theorem transform_idempotent_witness:
  "transform ''p1'' (Some (JStr ''U1'')) example_table (Some example_document) =
     Inr (Some example_result) \<and>
   transform ''p1'' (Some (JStr ''U1'')) example_table (Some example_result) =
     Inr (Some example_result)"
proof -
  have first: "transform ''p1'' (Some (JStr ''U1'')) example_table (Some example_document) =
      Inr (Some example_result)"
    by (simp add: transform_defs example_document_def example_table_def example_result_def)
  from transform_idempotent [OF first] first show ?thesis by simp
qed

end
